theory Spec2Isabelle
  imports Complex_Main "HOL-Library.Sublist" "HOL-Library.AList"
begin

section \<open>aws-es-proxy: a signing reverse proxy\<close>

text \<open>
  A shallow embedding of \<^verbatim>\<open>aws-es-proxy.go\<close>. The program's own functions
  (\<^verbatim>\<open>getSigner\<close>, \<^verbatim>\<open>getCredentials\<close>, \<^verbatim>\<open>copyHeaders\<close>,
  \<^verbatim>\<open>replaceBody\<close>, \<^verbatim>\<open>parseEndpoint\<close>, \<^verbatim>\<open>ServeHTTP\<close>,
  \<^verbatim>\<open>main\<close>) are translated statement by statement. What they call in the Go
  standard library and the AWS SDK is of two kinds:
  \<^item> small, fully documented operations on strings, byte readers, header maps and the
    response writer are written out (\<open>Split\<close>, \<open>Replace\<close>, \<open>ReadAll\<close>, \<open>Header_Add\<close>,
    \<open>WriteHeader\<close>, ...);
  \<^item> everything that talks to the outside world or whose result this program only
    passes on (the clock, URL parsing and printing, request construction, the request
    dump, the signer, the HTTP client, the credential session) is a field of the record
    \<open>env\<close>, about which nothing is assumed unless a theorem says so.
  Strings and byte slices are both \<open>char list\<close>: a Go string is a sequence of bytes.
\<close>

subsection \<open>Data\<close>

type_synonym bytes = string

text \<open>\<^verbatim>\<open>time.Time\<close> as an instant in nanoseconds, \<^verbatim>\<open>time.Duration\<close> as a signed
  count of nanoseconds held in 64 bits.\<close>

type_synonym Time = int
type_synonym Duration = int

text \<open>An \<^verbatim>\<open>io.Reader\<close> is given by what reading it to the end yields: the bytes
  delivered and the error, if any, that ended the reading (\<open>None\<close> for a clean EOF).\<close>

datatype Reader = Reader (delivered: bytes) (failure: "string option")

text \<open>\<^verbatim>\<open>http.Header\<close> is a \<^verbatim>\<open>map[string][]string\<close>. It is kept as an
  association list with one entry per key; the order of the entries stands for the
  order in which a \<^verbatim>\<open>range\<close> loop visits the map, which Go leaves unspecified.\<close>

type_synonym Header = "(string \<times> string list) list"

record URL =
  URL_Scheme :: string
  URL_Host :: string
  Path :: string
  RawQuery :: string

record request =
  Method :: string
  URL :: URL
  Header :: Header
  Body :: "Reader option"
  RemoteAddr :: string

record response =
  StatusCode :: int
  resp_Header :: Header
  resp_Body :: Reader

text \<open>\<^verbatim>\<open>*credentials.Credentials\<close> is an opaque pointer: \<open>None\<close> is \<^verbatim>\<open>nil\<close>.\<close>

datatype credentials = Credentials_object string

datatype Signer = NewSigner "credentials option"

record proxy =
  Scheme :: string
  Host :: string
  Region :: string
  Service :: string
  Verbose :: bool
  Prettify :: bool
  Refresh :: real
  CredentialsLastUpped :: Time
  Credentials :: "credentials option"

text \<open>How a call ends: it returns, it panics (inside a handler \<^verbatim>\<open>net/http\<close> recovers
  the panic and only that request is lost), or it ends the whole process
  (\<^verbatim>\<open>log.Fatal\<close>, \<^verbatim>\<open>log.Fatalf\<close>, \<^verbatim>\<open>log.Fatalln\<close> print and call
  \<^verbatim>\<open>os.Exit(1)\<close>).\<close>

datatype 'a result = Ok 'a | Panic string | Fatal string

subsection \<open>The environment\<close>

record env =
  clock :: "nat \<Rightarrow> Time"
    \<comment> \<open>the value of the \<open>n\<close>-th call of \<^verbatim>\<open>time.Now()\<close>\<close>
  Seconds :: "Duration \<Rightarrow> real"
    \<comment> \<open>\<^verbatim>\<open>Duration.Seconds()\<close>: the \<^verbatim>\<open>float64\<close> it returns, as the real number it denotes\<close>
  NewSession :: "nat \<Rightarrow> string + credentials option"
    \<comment> \<open>the \<open>n\<close>-th call of \<^verbatim>\<open>session.NewSession()\<close>: an error, or the session's
        \<^verbatim>\<open>Config.Credentials\<close>\<close>
  url_Parse :: "string \<Rightarrow> string + URL"
  URL_String :: "URL \<Rightarrow> string"
  URL_RequestURI :: "URL \<Rightarrow> string"
  DumpRequest :: "request \<Rightarrow> bytes \<times> Reader option"
    \<comment> \<open>\<^verbatim>\<open>httputil.DumpRequest(r, true)\<close>: the dump (\<^verbatim>\<open>nil\<close>, that is empty, when it
        fails) and the body it leaves in \<^verbatim>\<open>r.Body\<close>\<close>
  http_NewRequest :: "string \<Rightarrow> string \<Rightarrow> Reader option \<Rightarrow> string + request"
  CanonicalHeaderKey :: "string \<Rightarrow> string"
    \<comment> \<open>the key normalisation inside \<^verbatim>\<open>Header.Add\<close> and \<^verbatim>\<open>Header.Set\<close>\<close>
  Sign :: "Signer \<Rightarrow> request \<Rightarrow> bytes \<Rightarrow> string \<Rightarrow> string \<Rightarrow> Time \<Rightarrow> request"
    \<comment> \<open>\<^verbatim>\<open>signer.Sign(req, body, service, region, signTime)\<close>: the request as the
        signer leaves it; the header and error it returns are dropped by the caller\<close>
  client_Do :: "request \<Rightarrow> string + response"
    \<comment> \<open>\<^verbatim>\<open>http.DefaultClient.Do\<close>: a transport error or the upstream's response\<close>
  json_Indent :: "bytes \<Rightarrow> bytes"

text \<open>What a run leaves behind outside the proxy and the response writer.\<close>

datatype log_entry =
    Log_Print string
  | Log_Request string string string string int real
      \<comment> \<open>method, remote address, request URI, query, status, seconds\<close>
  | Pretty_Request Time string string string int real bytes
      \<comment> \<open>time, remote address, request URI, method, status, seconds, body\<close>

record world =
  clock_reads :: nat
  sessions :: nat
  signed :: "(request \<times> bytes) list"
    \<comment> \<open>the request and payload of every call of \<^verbatim>\<open>signer.Sign\<close>\<close>
  sent :: "request list"
    \<comment> \<open>every request handed to \<^verbatim>\<open>http.DefaultClient.Do\<close>\<close>
  logged :: "log_entry list"

definition time_Now :: "env \<Rightarrow> world \<Rightarrow> Time \<times> world" where
  "time_Now env wd = (clock env (clock_reads wd), wd\<lparr>clock_reads := Suc (clock_reads wd)\<rparr>)"

text \<open>\<^verbatim>\<open>t.Sub(u)\<close> saturates at the largest and smallest \<^verbatim>\<open>Duration\<close>.\<close>

definition time_Sub :: "Time \<Rightarrow> Time \<Rightarrow> Duration" where
  "time_Sub t u = max (- (2 ^ 63)) (min (2 ^ 63 - 1) (t - u))"

text \<open>The zero \<^verbatim>\<open>time.Time\<close> is January 1, year 1, 00:00 UTC, counted here from the
  Unix epoch.\<close>

definition zero_Time :: Time where
  "zero_Time = - 62135596800000000000"

subsection \<open>Strings\<close>

text \<open>\<^verbatim>\<open>strings.Split(s, sep)\<close> for a non-empty separator: the pieces between
  consecutive occurrences of \<open>sep\<close>, scanned from the left. (An empty separator explodes
  \<open>s\<close>; the program never passes one.)\<close>

function Split_from :: "string \<Rightarrow> string \<Rightarrow> string \<Rightarrow> string list" where
  "Split_from sep acc [] = [rev acc]"
| "Split_from sep acc (c # cs) =
     (if sep \<noteq> [] \<and> prefix sep (c # cs)
      then rev acc # Split_from sep [] (drop (length sep) (c # cs))
      else Split_from sep (c # acc) cs)"
  by pat_completeness auto
termination
  by (relation "measure (\<lambda>(sep, acc, s). length s)") auto

definition Split :: "string \<Rightarrow> string \<Rightarrow> string list" where
  "Split s sep = (if sep = [] then map (\<lambda>c. [c]) s else Split_from sep [] s)"

text \<open>\<^verbatim>\<open>strings.Replace(s, old, new, -1)\<close> for a one-byte \<open>old\<close>.\<close>

definition Replace :: "string \<Rightarrow> char \<Rightarrow> string \<Rightarrow> string" where
  "Replace s old new = concat (map (\<lambda>c. if c = old then new else [c]) s)"

subsection \<open>parseEndpoint and main\<close>

text \<open>The closure \<^verbatim>\<open>scheme\<close> of \<^verbatim>\<open>parseEndpoint\<close>.\<close>

definition scheme :: "string \<Rightarrow> string" where
  "scheme x = (if x = ''http'' \<or> x = ''https'' then x else ''https'')"

definition parseEndpoint :: "env \<Rightarrow> string \<Rightarrow> proxy \<Rightarrow> proxy result" where
  "parseEndpoint env endpoint p =
     (case url_Parse env endpoint of
        Inl err \<Rightarrow> Fatal (''ERROR: Failed parsing endpoint: '' @ endpoint)
      | Inr link0 \<Rightarrow>
          let link = link0\<lparr>URL_Scheme := scheme (URL_Scheme link0)\<rparr> in
          if URL_Host link = ''''
          then Fatal (''ERROR: Empty host information in submitted endpoint ('' @ endpoint @ '')'')
          else
            let parts = Split (URL_Host link) ''.'' in
            if length parts = 5
            then Ok (p\<lparr>Scheme := URL_Scheme link, Host := URL_Host link,
                       Region := parts ! 1, Service := parts ! 2\<rparr>)
            else Fatal ''ERROR: Submitted endpoint is not a valid Amazon ElasticSearch Endpoint'')"

text \<open>\<^verbatim>\<open>main\<close>, from the parsed flags on: the process either exits before it listens,
  or reaches \<^verbatim>\<open>http.ListenAndServe(listenAddress, mux)\<close>, the only place from which
  requests are served.\<close>

record flags =
  flag_endpoint :: string
  flag_listen :: string
  flag_verbose :: bool
  flag_pretty :: bool
  flag_refresh :: real

datatype startup = Exit_1 | Exit_Fatal string | ListenAndServe string proxy

definition main :: "env \<Rightarrow> string list \<Rightarrow> flags \<Rightarrow> startup" where
  "main env os_Args fl =
     (if length os_Args < 3 then Exit_1
      else
        let mux = \<lparr>Scheme = '''', Host = '''', Region = '''', Service = '''',
                   Verbose = flag_verbose fl, Prettify = flag_pretty fl,
                   Refresh = flag_refresh fl, CredentialsLastUpped = zero_Time,
                   Credentials = None\<rparr>
        in case parseEndpoint env (flag_endpoint fl) mux of
             Ok mux' \<Rightarrow> ListenAndServe (flag_listen fl) mux'
           | Panic m \<Rightarrow> Exit_Fatal m
           | Fatal m \<Rightarrow> Exit_Fatal m)"

subsection \<open>Readers, headers and the response writer\<close>

text \<open>\<^verbatim>\<open>ioutil.ReadAll(r)\<close> returns the data it read and the error that stopped it;
  \<^verbatim>\<open>io.Copy(&buf, r)\<close> leaves the data in \<open>buf\<close> and returns the error.
  \<^verbatim>\<open>ioutil.NopCloser(bytes.NewReader(b))\<close> is a reader that delivers \<open>b\<close> and ends
  cleanly.\<close>

definition ReadAll :: "Reader \<Rightarrow> bytes \<times> string option" where
  "ReadAll rd = (delivered rd, failure rd)"

definition io_Copy :: "Reader \<Rightarrow> bytes \<times> string option" where
  "io_Copy rd = (delivered rd, failure rd)"

definition bytes_NewReader :: "bytes \<Rightarrow> Reader" where
  "bytes_NewReader b = Reader b None"

text \<open>\<^verbatim>\<open>h.Add(key, value)\<close> appends to the values under the canonical form of the key;
  \<^verbatim>\<open>h.Set(key, value)\<close> replaces them by the single value.\<close>

definition Header_Add :: "env \<Rightarrow> Header \<Rightarrow> string \<Rightarrow> string \<Rightarrow> Header" where
  "Header_Add env h key v =
     (let k = CanonicalHeaderKey env key in
      case map_of h k of
        None \<Rightarrow> h @ [(k, [v])]
      | Some vs \<Rightarrow> AList.update k (vs @ [v]) h)"

definition Header_Set :: "env \<Rightarrow> Header \<Rightarrow> string \<Rightarrow> string \<Rightarrow> Header" where
  "Header_Set env h key v = AList.update (CanonicalHeaderKey env key) [v] h"

text \<open>An \<^verbatim>\<open>http.ResponseWriter\<close>: the header map, the status code of the first
  \<^verbatim>\<open>WriteHeader\<close>, and the bytes written. \<^verbatim>\<open>WriteHeader\<close> ignores a call after the
  first; on the first call it panics for a code outside 100..999 and records the code
  otherwise. \<^verbatim>\<open>Write\<close> before any \<^verbatim>\<open>WriteHeader\<close> calls
  \<^verbatim>\<open>WriteHeader(200)\<close> first.\<close>

record ResponseWriter =
  w_Header :: Header
  w_status :: "int option"
  w_body :: bytes

definition new_ResponseWriter :: ResponseWriter where
  "new_ResponseWriter = \<lparr>w_Header = [], w_status = None, w_body = []\<rparr>"

definition WriteHeader :: "ResponseWriter \<Rightarrow> int \<Rightarrow> ResponseWriter result" where
  "WriteHeader w code =
     (if w_status w \<noteq> None then Ok w
      else if code < 100 \<or> 999 < code then Panic ''invalid WriteHeader code''
      else Ok (w\<lparr>w_status := Some code\<rparr>))"

definition Write :: "ResponseWriter \<Rightarrow> bytes \<Rightarrow> ResponseWriter result" where
  "Write w b =
     (case WriteHeader w 200 of
        Ok w1 \<Rightarrow> Ok (w1\<lparr>w_body := w_body w1 @ b\<rparr>)
      | Panic m \<Rightarrow> Panic m
      | Fatal m \<Rightarrow> Fatal m)"

definition StatusBadRequest :: int where
  "StatusBadRequest = 400"

subsection \<open>The credential cache\<close>

definition getCredentials :: "env \<Rightarrow> world \<Rightarrow> (credentials option \<times> Time) result \<times> world" where
  "getCredentials env wd =
     (let wd1 = wd\<lparr>sessions := Suc (sessions wd)\<rparr> in
      case NewSession env (sessions wd) of
        Inl err \<Rightarrow> (Panic err, wd1)   \<comment> \<open>\<^verbatim>\<open>session.Must\<close>\<close>
      | Inr Credentials' \<Rightarrow>
          let wd2 = wd1\<lparr>logged := logged wd1 @ [Log_Print ''Generated fresh AWS Credentials object'']\<rparr>;
              (t, wd3) = time_Now env wd2
          in (Ok (Credentials', t), wd3))"

definition getSigner :: "env \<Rightarrow> proxy \<Rightarrow> world \<Rightarrow> Signer result \<times> proxy \<times> world" where
  "getSigner env p wd =
     (let (now, wd1) = time_Now env wd;
          diff = time_Sub now (CredentialsLastUpped p)
      in if Credentials p = None \<or> Seconds env diff > Refresh p
         then (case getCredentials env wd1 of
                 (Ok (c, t), wd2) \<Rightarrow>
                   let p' = p\<lparr>Credentials := c, CredentialsLastUpped := t\<rparr>
                   in (Ok (NewSigner (Credentials p')), p', wd2)
               | (Panic m, wd2) \<Rightarrow> (Panic m, p, wd2)
               | (Fatal m, wd2) \<Rightarrow> (Fatal m, p, wd2))
         else (Ok (NewSigner (Credentials p)), p, wd1))"

subsection \<open>copyHeaders and replaceBody\<close>

definition copyHeaders :: "env \<Rightarrow> Header \<Rightarrow> Header \<Rightarrow> Header" where
  "copyHeaders env dst src =
     fold (\<lambda>(k, vals) d. fold (\<lambda>v d'. Header_Add env d' k v) vals d) src dst"

text \<open>\<^verbatim>\<open>replaceBody\<close> returns the payload and leaves \<open>req\<close> with a fresh body; the
  error of \<^verbatim>\<open>ReadAll\<close> is assigned to \<^verbatim>\<open>_\<close>.\<close>

definition replaceBody :: "request \<Rightarrow> bytes \<times> request" where
  "replaceBody req =
     (case Body req of
        None \<Rightarrow> ([], req)
      | Some rd \<Rightarrow>
          let (payload, _) = ReadAll rd
          in (payload, req\<lparr>Body := Some (bytes_NewReader payload)\<rparr>))"

subsection \<open>The two regular expressions of the logger\<close>

text \<open>Go's \<^verbatim>\<open>FindString\<close> returns the leftmost match, and among the matches that start
  there the one a backtracking matcher finds first; it returns the empty string when
  nothing matches. For \<^verbatim>\<open>_msearch|_bulk\<close> that is the first position where either
  word starts.\<close>

fun regEx_FindString :: "string \<Rightarrow> string" where
  "regEx_FindString [] = []"
| "regEx_FindString (c # cs) =
     (if prefix ''_msearch'' (c # cs) then ''_msearch''
      else if prefix ''_bulk'' (c # cs) then ''_bulk''
      else regEx_FindString cs)"

text \<open>For \<^verbatim>\<open>{.*}\<close>: \<open>.\<close> is any character but a newline and \<open>*\<close> is greedy, so from
  an opening brace the match runs to the last closing brace before the next newline;
  an opening brace with no closing brace on the rest of its line does not match and
  the search moves on.\<close>

definition newline :: char where
  "newline = CHR 0x0A"

definition dot_star_close :: "string \<Rightarrow> string option" where
  "dot_star_close s =
     (let line = takeWhile (\<lambda>c. c \<noteq> newline) s in
      if CHR ''}'' \<in> set line
      then Some (rev (dropWhile (\<lambda>c. c \<noteq> CHR ''}'') (rev line)))
      else None)"

fun regex_FindString :: "string \<Rightarrow> string" where
  "regex_FindString [] = []"
| "regex_FindString (c # cs) =
     (if c = CHR ''{''
      then (case dot_star_close cs of
              Some m \<Rightarrow> c # m
            | None \<Rightarrow> regex_FindString cs)
      else regex_FindString cs)"

subsection \<open>ServeHTTP\<close>

text \<open>The closure \<^verbatim>\<open>respondError\<close>.\<close>

definition respondError :: "ResponseWriter \<Rightarrow> string \<Rightarrow> ResponseWriter result" where
  "respondError w err =
     (case WriteHeader w StatusBadRequest of
        Ok w1 \<Rightarrow> Write w1 err
      | Panic m \<Rightarrow> Panic m
      | Fatal m \<Rightarrow> Fatal m)"

text \<open>How the handler ends after its last write to \<open>w\<close>: a panic inside the write leaves
  the writer as it was.\<close>

definition after_write ::
  "ResponseWriter result \<Rightarrow> proxy \<Rightarrow> ResponseWriter \<Rightarrow> world
     \<Rightarrow> unit result \<times> proxy \<times> ResponseWriter \<times> world" where
  "after_write written p w wd =
     (case written of
        Ok w' \<Rightarrow> (Ok (), p, w', wd)
      | Panic m \<Rightarrow> (Panic m, p, w, wd)
      | Fatal m \<Rightarrow> (Fatal m, p, w, wd))"

text \<open>The value of the variable \<^verbatim>\<open>query\<close>, computed from \<^verbatim>\<open>dump\<close> after the
  response has been written.\<close>

definition query_of_dump :: "bytes \<Rightarrow> string" where
  "query_of_dump dump =
     (let rawQuery = dump;
          rawQuery = Replace rawQuery newline '' '';
          queryEx = regEx_FindString rawQuery
      in if length queryEx = 0 then regex_FindString rawQuery else [])"

text \<open>The block under \<^verbatim>\<open>if p.Verbose\<close>. The lines it prints are kept as one structured
  entry rather than as formatted text.\<close>

definition log_everything ::
  "env \<Rightarrow> proxy \<Rightarrow> request \<Rightarrow> URL \<Rightarrow> response \<Rightarrow> Time \<Rightarrow> string \<Rightarrow> world \<Rightarrow> world" where
  "log_everything env p r endpoint resp requestStarted query wd =
     (if Verbose p then
        let (now, wd1) = time_Now env wd;
            requestEnded = time_Sub now requestStarted
        in if Prettify p then
             let prettyBody = json_Indent env query;
                 (t, wd2) = time_Now env wd1
             in wd2\<lparr>logged := logged wd2 @
                      [Pretty_Request t (RemoteAddr r) (URL_RequestURI env endpoint) (Method r)
                         (StatusCode resp) (Seconds env requestEnded) prettyBody]\<rparr>
           else
             wd1\<lparr>logged := logged wd1 @
                      [Log_Request (Method r) (RemoteAddr r) (URL_RequestURI env endpoint) query
                         (StatusCode resp) (Seconds env requestEnded)]\<rparr>
      else wd)"

text \<open>The last part of \<^verbatim>\<open>ServeHTTP\<close>, from \<^verbatim>\<open>defer resp.Body.Close()\<close> to the end:
  what the handler does with the response \<open>resp\<close> of the upstream.
  \<^verbatim>\<open>w.WriteHeader(resp.StatusCode)\<close> panics on a status code outside 100..999.\<close>

definition relay_response ::
  "env \<Rightarrow> proxy \<Rightarrow> ResponseWriter \<Rightarrow> request \<Rightarrow> URL \<Rightarrow> Time \<Rightarrow> bytes \<Rightarrow> response \<Rightarrow> world
     \<Rightarrow> unit result \<times> proxy \<times> ResponseWriter \<times> world" where
  "relay_response env p w r endpoint requestStarted dump resp wd =
     (let w1 = w\<lparr>w_Header := copyHeaders env (w_Header w) (resp_Header resp)\<rparr>;
          (buf, copy_err) = io_Copy (resp_Body resp)
      in case copy_err of
           Some err \<Rightarrow> (Fatal err, p, w1, wd)
         | None \<Rightarrow>
      (case WriteHeader w1 (StatusCode resp) of
         Panic m \<Rightarrow> (Panic m, p, w1, wd)
       | Fatal m \<Rightarrow> (Fatal m, p, w1, wd)
       | Ok w2 \<Rightarrow>
      (case Write w2 buf of
         Panic m \<Rightarrow> (Panic m, p, w2, wd)
       | Fatal m \<Rightarrow> (Fatal m, p, w2, wd)
       | Ok w3 \<Rightarrow>
      let query = query_of_dump dump
      in (Ok (), p, w3, log_everything env p r endpoint resp requestStarted query wd))))"

text \<open>\<^verbatim>\<open>ServeHTTP(w, r)\<close> on the proxy \<open>p\<close>. The result is how the handler ended,
  with the proxy, the response writer and the world as it leaves them.
  \<^verbatim>\<open>defer r.Body.Close()\<close> evaluates the method value when the statement runs, which
  panics on a \<^verbatim>\<open>nil\<close> body; \<^verbatim>\<open>val[0]\<close> panics on an empty slice.\<close>

definition ServeHTTP ::
  "env \<Rightarrow> proxy \<Rightarrow> ResponseWriter \<Rightarrow> request \<Rightarrow> world
     \<Rightarrow> unit result \<times> proxy \<times> ResponseWriter \<times> world" where
  "ServeHTTP env p w r0 wd0 =
     (let (requestStarted, wd1) = time_Now env wd0;
          (dump, body') = DumpRequest env r0;
          r = r0\<lparr>Body := body'\<rparr>
      in case Body r of
           None \<Rightarrow> (Panic ''invalid memory address or nil pointer dereference'', p, w, wd1)
         | Some _ \<Rightarrow>
      let endpoint = (URL r)\<lparr>URL_Host := Host p, URL_Scheme := Scheme p\<rparr>
      in case http_NewRequest env (Method r) (URL_String env endpoint) (Body r) of
           Inl err \<Rightarrow> after_write (respondError w err) p w wd1
         | Inr req0 \<Rightarrow>
      (case (case map_of (Header r) ''Kbn-Version'' of
               None \<Rightarrow> Some req0
             | Some [] \<Rightarrow> None
             | Some (v # _) \<Rightarrow>
                 Some (req0\<lparr>Header := Header_Set env (Header req0) ''Kbn-Version'' v\<rparr>)) of
         None \<Rightarrow> (Panic ''index out of range'', p, w, wd1)
       | Some req1 \<Rightarrow>
      (case getSigner env p wd1 of
         (Panic m, p2, wd2) \<Rightarrow> (Panic m, p2, w, wd2)
       | (Fatal m, p2, wd2) \<Rightarrow> (Fatal m, p2, w, wd2)
       | (Ok signer, p2, wd2) \<Rightarrow>
      let (payload, req2) = replaceBody req1;
          (signTime, wd3) = time_Now env wd2;
          req3 = Sign env signer req2 payload (Service p2) (Region p2) signTime;
          wd4 = wd3\<lparr>signed := signed wd3 @ [(req2, payload)]\<rparr>;
          wd5 = wd4\<lparr>sent := sent wd4 @ [req3]\<rparr>
      in case client_Do env req3 of
           Inl err \<Rightarrow>
             after_write (respondError w err) p2 w (wd5\<lparr>logged := logged wd5 @ [Log_Print err]\<rparr>)
         | Inr resp \<Rightarrow> relay_response env p2 w r endpoint requestStarted dump resp wd5)))"

subsection \<open>The logger's query, in the words of the specification\<close>

text \<open>The first brace-delimited span of a text: it starts at the first opening brace
  and runs to the last closing brace after it; there is none when no closing brace
  follows the first opening one.\<close>

definition first_brace_span :: "string \<Rightarrow> string" where
  "first_brace_span s =
     (let t = dropWhile (\<lambda>c. c \<noteq> CHR ''{'') s in
      if t \<noteq> [] \<and> CHR ''}'' \<in> set (tl t)
      then rev (dropWhile (\<lambda>c. c \<noteq> CHR ''}'') (rev t))
      else [])"

text \<open>The query field as the specification words it: empty when the dump holds one of
  the two markers, the first brace-delimited span of the dump otherwise.\<close>

definition spec_query :: "bytes \<Rightarrow> string" where
  "spec_query dump =
     (if sublist ''_msearch'' dump \<or> sublist ''_bulk'' dump then []
      else first_brace_span dump)"

subsection \<open>A sample environment\<close>

text \<open>Concrete values on which the theorems below are exercised: a toy URL parser and
  printer for URLs of the shape \<^verbatim>\<open>scheme://host/path?query\<close>, a signer that adds an
  \<^verbatim>\<open>Authorization\<close> header and attaches the payload, and an upstream that answers 200.\<close>

definition example_url_Parse :: "string \<Rightarrow> string + URL" where
  "example_url_Parse s =
     (case Split s ''//'' of
        [sch, rest] \<Rightarrow>
          if sch = [] \<or> last sch = CHR '':''
          then Inr \<lparr>URL_Scheme = butlast sch,
                    URL_Host = takeWhile (\<lambda>c. c \<noteq> CHR ''/'' \<and> c \<noteq> CHR ''?'') rest,
                    Path = takeWhile (\<lambda>c. c \<noteq> CHR ''?'')
                             (dropWhile (\<lambda>c. c \<noteq> CHR ''/'' \<and> c \<noteq> CHR ''?'') rest),
                    RawQuery = drop 1 (dropWhile (\<lambda>c. c \<noteq> CHR ''?'') rest)\<rparr>
          else Inl ''first path segment in URL cannot contain colon''
      | _ \<Rightarrow> Inl ''unsupported URL'')"

definition example_URL_String :: "URL \<Rightarrow> string" where
  "example_URL_String u =
     (if URL_Scheme u = [] then [] else URL_Scheme u @ '':'') @ ''//'' @ URL_Host u @ Path u @
     (if RawQuery u = [] then [] else ''?'' @ RawQuery u)"

text \<open>The sample request dump reads the body to its end. When that succeeds it returns
  the request line and the body, and leaves a body that delivers the same bytes again;
  when the reading fails it returns no dump and leaves the drained body, from which
  nothing more can be read.\<close>

definition example_DumpRequest :: "request \<Rightarrow> bytes \<times> Reader option" where
  "example_DumpRequest r =
     (case Body r of
        None \<Rightarrow>
          (Method r @ '' '' @ Path (URL r) @ '' HTTP/1.1'' @ [CHR 0x0D, newline] @
           [CHR 0x0D, newline], None)
      | Some rd \<Rightarrow>
          (case failure rd of
             None \<Rightarrow>
               (Method r @ '' '' @ Path (URL r) @ '' HTTP/1.1'' @ [CHR 0x0D, newline] @
                [CHR 0x0D, newline] @ delivered rd, Some (Reader (delivered rd) None))
           | Some e \<Rightarrow> ([], Some (Reader [] (Some e)))))"

definition example_env :: env where
  "example_env =
     \<lparr>clock = (\<lambda>n. 1700000000000000000 + 1000000 * int n),
      Seconds = (\<lambda>d. real_of_int d / 1000000000),
      NewSession = (\<lambda>n. Inr (Some (Credentials_object ''AKIAEXAMPLE''))),
      url_Parse = example_url_Parse,
      URL_String = example_URL_String,
      URL_RequestURI = (\<lambda>u. Path u @ (if RawQuery u = [] then [] else ''?'' @ RawQuery u)),
      DumpRequest = example_DumpRequest,
      http_NewRequest = (\<lambda>m s b.
         case example_url_Parse s of
           Inl e \<Rightarrow> Inl e
         | Inr u \<Rightarrow> Inr \<lparr>Method = m, URL = u, Header = [], Body = b, RemoteAddr = []\<rparr>),
      CanonicalHeaderKey = (\<lambda>k. k),
      Sign = (\<lambda>s q pl sv rg t.
         q\<lparr>Header := Header q @ [(''Authorization'', [''AWS4-HMAC-SHA256 Credential=AKIAEXAMPLE''])],
           Body := Some (Reader pl None)\<rparr>),
      client_Do = (\<lambda>q. Inr \<lparr>StatusCode = 200,
                             resp_Header = [(''Content-Type'', [''application/json'']),
                                            (''Set-Cookie'', [''a=1'', ''b=2''])],
                             resp_Body = Reader ''{hits:[]}'' None\<rparr>),
      json_Indent = (\<lambda>b. b)\<rparr>"

definition example_proxy :: proxy where
  "example_proxy =
     \<lparr>Scheme = ''https'', Host = ''foo.eu-west-1.es.amazonaws.com'', Region = ''eu-west-1'',
      Service = ''es'', Verbose = True, Prettify = False, Refresh = 120,
      CredentialsLastUpped = zero_Time, Credentials = None\<rparr>"

definition example_request :: request where
  "example_request =
     \<lparr>Method = ''POST'',
      URL = \<lparr>URL_Scheme = [], URL_Host = [], Path = ''/idx/_search'', RawQuery = ''pretty''\<rparr>,
      Header = [(''Content-Type'', [''application/json'']), (''Kbn-Version'', [''5.1.1''])],
      Body = Some (Reader ''{query:{match_all:{}}}'' None),
      RemoteAddr = ''10.0.0.7:51234''\<rparr>"

definition world0 :: world where
  "world0 = \<lparr>clock_reads = 0, sessions = 0, signed = [], sent = [], logged = []\<rparr>"

text \<open>The same environment with an upstream that refuses the connection, and with one
  whose response body breaks off.\<close>

definition env_refused :: env where
  "env_refused = example_env\<lparr>client_Do := (\<lambda>q. Inl ''dial tcp 10.1.2.3:443: connection refused'')\<rparr>"

definition env_truncated :: env where
  "env_truncated =
     example_env\<lparr>client_Do := (\<lambda>q. Inr \<lparr>StatusCode = 200, resp_Header = [],
                                          resp_Body = Reader ''{hits:'' (Some ''unexpected EOF'')\<rparr>)\<rparr>"

text \<open>A request dump whose body is a JSON object written on three lines.\<close>

definition multiline_dump :: bytes where
  "multiline_dump =
     ''POST /idx/_search HTTP/1.1'' @ [CHR 0x0D, newline] @ ''Host: localhost:9200'' @
     [CHR 0x0D, newline, CHR 0x0D, newline] @ ''{'' @ [newline] @ '' query: {}'' @ [newline] @ ''}''"

text \<open>The sample proxy with credentials fetched five seconds, and 121 seconds, before
  the sample clock's first reading.\<close>

definition cached_proxy :: proxy where
  "cached_proxy = example_proxy\<lparr>Credentials := Some (Credentials_object ''AKIAOLD''),
                                CredentialsLastUpped := 1700000000000000000 - 5000000000\<rparr>"

definition stale_proxy :: proxy where
  "stale_proxy = example_proxy\<lparr>Credentials := Some (Credentials_object ''AKIAOLD''),
                               CredentialsLastUpped := 1700000000000000000 - 121000000000\<rparr>"



text \<open>The sample environment with an upstream whose status line carries the code 099.\<close>

definition env_status_99 :: env where
  "env_status_99 =
     example_env\<lparr>client_Do := (\<lambda>q. Inr \<lparr>StatusCode = 99,
                                          resp_Header = [(''Content-Type'', [''text/plain''])],
                                          resp_Body = Reader ''odd'' None\<rparr>)\<rparr>"

text \<open>A signer that, like the SDK's, also rewrites the query string in \<open>key=value\<close> form
  (a key without a value gains \<open>=\<close>) and stamps the request with a date.\<close>

fun join_amp :: "string list \<Rightarrow> string" where
  "join_amp [] = []"
| "join_amp [x] = x"
| "join_amp (x # y # ys) = x @ ''&'' @ join_amp (y # ys)"

definition example_Encode :: "string \<Rightarrow> string" where
  "example_Encode raw =
     (if raw = [] then []
      else join_amp (map (\<lambda>kv. if CHR ''='' \<in> set kv then kv else kv @ ''='')
                         (Split raw ''&'')))"

definition env_sdk_signer :: env where
  "env_sdk_signer =
     example_env\<lparr>Sign := (\<lambda>s q pl sv rg t.
        q\<lparr>URL := (URL q)\<lparr>RawQuery := example_Encode (RawQuery (URL q))\<rparr>,
          Header := Header q @ [(''X-Amz-Date'', [''20231114T221320Z'']),
                                (''Authorization'', [''AWS4-HMAC-SHA256 Credential=AKIAEXAMPLE''])],
          Body := Some (Reader pl None)\<rparr>)\<rparr>"

section \<open>Properties\<close>

subsection \<open>What one run of the handler does\<close>

lemma getSigner_keeps:
  assumes "getSigner env p wd = (res, p', wd')"
  shows "sent wd' = sent wd \<and> signed wd' = signed wd \<and>
         Service p' = Service p \<and> Region p' = Region p"
  using assms
  by (auto simp: getSigner_def getCredentials_def time_Now_def Let_def
           split: if_splits sum.splits prod.splits result.splits)

lemma log_everything_keeps:
  "sent (log_everything env p r u resp t0 query wd) = sent wd"
  "signed (log_everything env p r u resp t0 query wd) = signed wd"
  by (simp_all add: log_everything_def time_Now_def Let_def split: prod.splits)

text \<open>\<^verbatim>\<open>Write\<close> and \<^verbatim>\<open>respondError\<close> never panic: the codes 200 and 400 are valid.\<close>

lemma Write_Ok:
  "Write w b =
     Ok ((if w_status w = None then w\<lparr>w_status := Some 200\<rparr> else w)
           \<lparr>w_body := w_body w @ b\<rparr>)"
  by (simp add: Write_def WriteHeader_def)

lemma respondError_Ok:
  "respondError w err =
     Ok ((if w_status w = None then w\<lparr>w_status := Some 400\<rparr> else w)
           \<lparr>w_body := w_body w @ err\<rparr>)"
  by (simp add: respondError_def WriteHeader_def StatusBadRequest_def Write_Ok)

text \<open>What the handler makes of an upstream response.\<close>

lemma relay_response_result:
  assumes "relay_response env p w r u t0 dump resp wd = (res, p', w', wd')"
  shows "sent wd' = sent wd \<and> signed wd' = signed wd \<and> p' = p \<and>
         (case failure (resp_Body resp) of
            Some e \<Rightarrow> res = Fatal e \<and>
               w' = w\<lparr>w_Header := copyHeaders env (w_Header w) (resp_Header resp)\<rparr>
          | None \<Rightarrow>
              (case WriteHeader (w\<lparr>w_Header := copyHeaders env (w_Header w) (resp_Header resp)\<rparr>)
                      (StatusCode resp) of
                 Ok w2 \<Rightarrow> res = Ok () \<and> Write w2 (delivered (resp_Body resp)) = Ok w'
               | Panic m \<Rightarrow> res = Panic m \<and>
                   w' = w\<lparr>w_Header := copyHeaders env (w_Header w) (resp_Header resp)\<rparr>
               | Fatal m \<Rightarrow> res = Fatal m))"
  using assms
  by (auto simp: relay_response_def Let_def io_Copy_def Write_Ok log_everything_keeps
           split: option.splits result.splits)

text \<open>A run that hands a request \<open>q\<close> to the HTTP client went through every earlier
  stage; what follows is decided by the client's answer for \<open>q\<close>.\<close>

lemma ServeHTTP_sent:
  assumes run: "ServeHTTP env p w r0 wd0 = (res, p', w', wd')"
      and reached: "sent wd' = sent wd0 @ [q]"
  shows "\<exists>dump body' req0 req1 signer p2 wd2 payload req2.
           DumpRequest env r0 = (dump, body') \<and> body' \<noteq> None \<and>
           http_NewRequest env (Method r0)
              (URL_String env ((URL r0)\<lparr>URL_Host := Host p, URL_Scheme := Scheme p\<rparr>)) body' = Inr req0 \<and>
           (case map_of (Header r0) ''Kbn-Version'' of
              None \<Rightarrow> req1 = req0
            | Some val \<Rightarrow> val \<noteq> [] \<and>
                req1 = req0\<lparr>Header := Header_Set env (Header req0) ''Kbn-Version'' (hd val)\<rparr>) \<and>
           getSigner env p (snd (time_Now env wd0)) = (Ok signer, p2, wd2) \<and>
           replaceBody req1 = (payload, req2) \<and>
           q = Sign env signer req2 payload (Service p2) (Region p2) (fst (time_Now env wd2)) \<and>
           signed wd' = signed wd0 @ [(req2, payload)] \<and>
           p' = p2 \<and>
           (case client_Do env q of
              Inl err \<Rightarrow> res = Ok () \<and> respondError w err = Ok w'
            | Inr resp \<Rightarrow>
                (case failure (resp_Body resp) of
                   Some e \<Rightarrow> res = Fatal e \<and>
                      w' = w\<lparr>w_Header := copyHeaders env (w_Header w) (resp_Header resp)\<rparr>
                 | None \<Rightarrow>
                     (case WriteHeader (w\<lparr>w_Header := copyHeaders env (w_Header w) (resp_Header resp)\<rparr>)
                             (StatusCode resp) of
                        Ok w2 \<Rightarrow> res = Ok () \<and> Write w2 (delivered (resp_Body resp)) = Ok w'
                      | Panic m \<Rightarrow> res = Panic m \<and>
                          w' = w\<lparr>w_Header := copyHeaders env (w_Header w) (resp_Header resp)\<rparr>
                      | Fatal m \<Rightarrow> res = Fatal m)))"
  using assms
  apply (simp add: ServeHTTP_def Let_def time_Now_def after_write_def respondError_Ok
         split: prod.splits option.splits sum.splits list.splits result.splits)
  apply (auto dest!: getSigner_keeps relay_response_result)
  done


text \<open>The equations that evaluate the model on the sample environment.\<close>

lemmas example_defs =
  ServeHTTP_def getSigner_def getCredentials_def time_Now_def time_Sub_def replaceBody_def
  ReadAll_def io_Copy_def bytes_NewReader_def Header_Set_def Header_Add_def copyHeaders_def
  respondError_def Write_def WriteHeader_def StatusBadRequest_def new_ResponseWriter_def
  after_write_def relay_response_def example_DumpRequest_def
  log_everything_def example_env_def example_proxy_def example_request_def world0_def
  example_url_Parse_def example_URL_String_def Split_def zero_Time_def Let_def
  env_refused_def env_truncated_def

subsection \<open>Transport failures\<close>

text \<open>C5. When the request handed to the HTTP client comes back with a transport error,
  the handler returns normally (the process goes on serving), and the caller's response
  has status 400 and the error's text as its body.\<close>

theorem transport_failure_answers_400:
  assumes run: "ServeHTTP env p new_ResponseWriter r wd = (res, p', w', wd')"
      and reached: "sent wd' = sent wd @ [q]"
      and failed: "client_Do env q = Inl err"
  shows "res = Ok () \<and> w' = \<lparr>w_Header = [], w_status = Some 400, w_body = err\<rparr>"
  using ServeHTTP_sent [OF run reached] failed
  by (auto simp: respondError_Ok new_ResponseWriter_def)

theorem transport_failure_answers_400_witness:
  "fst (ServeHTTP env_refused example_proxy new_ResponseWriter example_request world0) = Ok () \<and>
   fst (snd (snd (ServeHTTP env_refused example_proxy new_ResponseWriter example_request world0))) =
     \<lparr>w_Header = [], w_status = Some 400, w_body = ''dial tcp 10.1.2.3:443: connection refused''\<rparr>"
proof -
  obtain res p' w' wd' where
    run: "ServeHTTP env_refused example_proxy new_ResponseWriter example_request world0 = (res, p', w', wd')"
    using prod_cases4 by blast
  have "\<exists>q. sent wd' = sent world0 @ [q]"
    using run by (auto simp: example_defs)
  then obtain q where reached: "sent wd' = sent world0 @ [q]" ..
  have failed: "client_Do env_refused q = Inl ''dial tcp 10.1.2.3:443: connection refused''"
    by (simp add: env_refused_def)
  from transport_failure_answers_400 [OF run reached failed] show ?thesis
    by (simp add: run)
qed

subsection \<open>Endpoint resolution\<close>

lemma Split_empty: "Split [] ''.'' = [[]]"
  by (simp add: Split_def)

text \<open>C3. When the endpoint parses and its authority splits at the dots into exactly five
  labels, \<^verbatim>\<open>parseEndpoint\<close> succeeds with the second label as region and the third as
  service. With any other number of labels it ends the process with a fatal error, so
  \<^verbatim>\<open>main\<close> never reaches \<^verbatim>\<open>ListenAndServe\<close> and no request is served.\<close>

theorem parseEndpoint_five_labels:
  assumes parsed: "url_Parse env endpoint = Inr link"
  shows "(length (Split (URL_Host link) ''.'') = 5 \<longrightarrow>
            parseEndpoint env endpoint p =
              Ok (p\<lparr>Scheme := scheme (URL_Scheme link), Host := URL_Host link,
                    Region := Split (URL_Host link) ''.'' ! 1,
                    Service := Split (URL_Host link) ''.'' ! 2\<rparr>)) \<and>
         (length (Split (URL_Host link) ''.'') \<noteq> 5 \<longrightarrow>
            (\<exists>msg. parseEndpoint env endpoint p = Fatal msg) \<and>
            (\<forall>os_Args fl addr mux. flag_endpoint fl = endpoint \<longrightarrow>
                main env os_Args fl \<noteq> ListenAndServe addr mux))"
proof (intro conjI impI allI)
  assume five: "length (Split (URL_Host link) ''.'') = 5"
  then have "URL_Host link \<noteq> []"
    using Split_empty by fastforce
  with five parsed show "parseEndpoint env endpoint p =
      Ok (p\<lparr>Scheme := scheme (URL_Scheme link), Host := URL_Host link,
            Region := Split (URL_Host link) ''.'' ! 1,
            Service := Split (URL_Host link) ''.'' ! 2\<rparr>)"
    by (simp add: parseEndpoint_def Let_def)
next
  assume other: "length (Split (URL_Host link) ''.'') \<noteq> 5"
  with parsed show "\<exists>msg. parseEndpoint env endpoint p = Fatal msg"
    by (simp add: parseEndpoint_def Let_def)
next
  fix os_Args and fl :: flags and addr mux
  assume other: "length (Split (URL_Host link) ''.'') \<noteq> 5"
     and ep: "flag_endpoint fl = endpoint"
  have never_Ok: "parseEndpoint env (flag_endpoint fl) p0 \<noteq> Ok mux0" for p0 mux0
    using parsed other ep by (simp add: parseEndpoint_def Let_def)
  show "main env os_Args fl \<noteq> ListenAndServe addr mux"
    by (simp add: main_def Let_def never_Ok split: result.splits)
qed

lemma example_parse_foo:
  "url_Parse example_env ''https://foo.eu-west-1.es.amazonaws.com'' =
     Inr \<lparr>URL_Scheme = ''https'', URL_Host = ''foo.eu-west-1.es.amazonaws.com'', Path = [], RawQuery = []\<rparr>"
  by (simp add: example_env_def example_url_Parse_def Split_def)

lemma example_parse_bad:
  "url_Parse example_env ''https://bad.endpoint.com'' =
     Inr \<lparr>URL_Scheme = ''https'', URL_Host = ''bad.endpoint.com'', Path = [], RawQuery = []\<rparr>"
  by (simp add: example_env_def example_url_Parse_def Split_def)

theorem parseEndpoint_five_labels_witness:
  "parseEndpoint example_env ''https://foo.eu-west-1.es.amazonaws.com'' example_proxy =
     Ok (example_proxy\<lparr>Scheme := ''https'', Host := ''foo.eu-west-1.es.amazonaws.com'',
                       Region := ''eu-west-1'', Service := ''es''\<rparr>) \<and>
   (\<exists>msg. parseEndpoint example_env ''https://bad.endpoint.com'' example_proxy = Fatal msg)"
  using parseEndpoint_five_labels [OF example_parse_foo, of example_proxy]
        parseEndpoint_five_labels [OF example_parse_bad, of example_proxy]
  by (simp add: Split_def scheme_def)

text \<open>C9. Whenever resolution succeeds, the proxy's scheme is the parsed scheme if that is
  exactly \<^verbatim>\<open>http\<close> or \<^verbatim>\<open>https\<close>, and \<^verbatim>\<open>https\<close> for every other parsed
  scheme, the empty one included.\<close>

theorem parseEndpoint_scheme:
  assumes parsed: "url_Parse env endpoint = Inr link"
      and resolved: "parseEndpoint env endpoint p = Ok p'"
  shows "Scheme p' =
           (if URL_Scheme link = ''http'' \<or> URL_Scheme link = ''https'' then URL_Scheme link
            else ''https'')"
  using assms
  by (auto simp: parseEndpoint_def scheme_def Let_def split: if_splits)

lemma example_parse_http:
  "url_Parse example_env ''http://foo.eu-west-1.es.amazonaws.com'' =
     Inr \<lparr>URL_Scheme = ''http'', URL_Host = ''foo.eu-west-1.es.amazonaws.com'', Path = [], RawQuery = []\<rparr>"
  by (simp add: example_env_def example_url_Parse_def Split_def)

lemma example_parse_ftp:
  "url_Parse example_env ''ftp://foo.eu-west-1.es.amazonaws.com'' =
     Inr \<lparr>URL_Scheme = ''ftp'', URL_Host = ''foo.eu-west-1.es.amazonaws.com'', Path = [], RawQuery = []\<rparr>"
  by (simp add: example_env_def example_url_Parse_def Split_def)

lemma example_parse_no_scheme:
  "url_Parse example_env ''//foo.eu-west-1.es.amazonaws.com'' =
     Inr \<lparr>URL_Scheme = [], URL_Host = ''foo.eu-west-1.es.amazonaws.com'', Path = [], RawQuery = []\<rparr>"
  by (simp add: example_env_def example_url_Parse_def Split_def)

theorem parseEndpoint_scheme_witness:
  "(\<exists>p'. parseEndpoint example_env ''http://foo.eu-west-1.es.amazonaws.com'' example_proxy = Ok p' \<and>
         Scheme p' = ''http'') \<and>
   (\<exists>p'. parseEndpoint example_env ''ftp://foo.eu-west-1.es.amazonaws.com'' example_proxy = Ok p' \<and>
         Scheme p' = ''https'') \<and>
   (\<exists>p'. parseEndpoint example_env ''//foo.eu-west-1.es.amazonaws.com'' example_proxy = Ok p' \<and>
         Scheme p' = ''https'')"
proof -
  obtain p1 where r1: "parseEndpoint example_env ''http://foo.eu-west-1.es.amazonaws.com'' example_proxy = Ok p1"
    by (simp add: parseEndpoint_def example_parse_http Split_def)
  obtain p2 where r2: "parseEndpoint example_env ''ftp://foo.eu-west-1.es.amazonaws.com'' example_proxy = Ok p2"
    by (simp add: parseEndpoint_def example_parse_ftp Split_def)
  obtain p3 where r3: "parseEndpoint example_env ''//foo.eu-west-1.es.amazonaws.com'' example_proxy = Ok p3"
    by (simp add: parseEndpoint_def example_parse_no_scheme Split_def)
  show ?thesis
    using parseEndpoint_scheme [OF example_parse_http r1]
          parseEndpoint_scheme [OF example_parse_ftp r2]
          parseEndpoint_scheme [OF example_parse_no_scheme r3] r1 r2 r3
    by simp
qed

text \<open>The request that reaches the client, in terms of the inbound one.\<close>

lemma ServeHTTP_outbound:
  assumes run: "ServeHTTP env p w r0 wd0 = (res, p', w', wd')"
      and reached: "sent wd' = sent wd0 @ [q]"
  shows "\<exists>dump body' req0 req2 payload s t.
           DumpRequest env r0 = (dump, body') \<and>
           http_NewRequest env (Method r0)
              (URL_String env ((URL r0)\<lparr>URL_Host := Host p, URL_Scheme := Scheme p\<rparr>)) body' = Inr req0 \<and>
           Method req2 = Method req0 \<and> URL req2 = URL req0 \<and>
           Header req2 =
             (case map_of (Header r0) ''Kbn-Version'' of
                Some (v # vs) \<Rightarrow> Header_Set env (Header req0) ''Kbn-Version'' v
              | _ \<Rightarrow> Header req0) \<and>
           (payload, Body req2) =
             (case Body req0 of
                None \<Rightarrow> ([], None)
              | Some rd \<Rightarrow> (delivered rd, Some (Reader (delivered rd) None))) \<and>
           q = Sign env s req2 payload (Service p) (Region p) t \<and>
           signed wd' = signed wd0 @ [(req2, payload)]"
proof -
  from ServeHTTP_sent [OF run reached]
  obtain dump body' req0 req1 signer p2 wd2 payload req2 where
    d: "DumpRequest env r0 = (dump, body')"
    and nr: "http_NewRequest env (Method r0)
              (URL_String env ((URL r0)\<lparr>URL_Host := Host p, URL_Scheme := Scheme p\<rparr>)) body' = Inr req0"
    and kbn: "case map_of (Header r0) ''Kbn-Version'' of
              None \<Rightarrow> req1 = req0
            | Some val \<Rightarrow> val \<noteq> [] \<and>
                req1 = req0\<lparr>Header := Header_Set env (Header req0) ''Kbn-Version'' (hd val)\<rparr>"
    and gs: "getSigner env p (snd (time_Now env wd0)) = (Ok signer, p2, wd2)"
    and rb: "replaceBody req1 = (payload, req2)"
    and q: "q = Sign env signer req2 payload (Service p2) (Region p2) (fst (time_Now env wd2))"
    and sg: "signed wd' = signed wd0 @ [(req2, payload)]"
    by blast
  have p2: "Service p2 = Service p" "Region p2 = Region p"
    using getSigner_keeps [OF gs] by simp_all
  have req1: "Method req1 = Method req0" "URL req1 = URL req0" "Body req1 = Body req0"
    "Header req1 =
       (case map_of (Header r0) ''Kbn-Version'' of
          Some (v # vs) \<Rightarrow> Header_Set env (Header req0) ''Kbn-Version'' v
        | _ \<Rightarrow> Header req0)"
    using kbn by (auto split: option.splits list.splits)
  have req2: "Method req2 = Method req1" "URL req2 = URL req1" "Header req2 = Header req1"
    "(payload, Body req2) =
       (case Body req1 of
          None \<Rightarrow> ([], None)
        | Some rd \<Rightarrow> (delivered rd, Some (Reader (delivered rd) None)))"
    using rb by (auto simp: replaceBody_def ReadAll_def bytes_NewReader_def split: option.splits)
  show ?thesis
    using d nr req1 req2 q sg p2 by (metis (no_types, lifting))
qed

subsection \<open>The credential cache\<close>

text \<open>C4. One call of \<^verbatim>\<open>getSigner\<close>, with \<open>now\<close> the clock reading it takes. If
  credentials are cached and \<open>now - lastRefreshedAt\<close>, in seconds, is at most the refresh
  interval, no session is opened: the proxy is unchanged and the signer is built from
  the cached credentials. If nothing is cached or the interval is exceeded, exactly one
  session is opened; unless that fails (a panic), the new credentials and the clock
  reading taken right after the fetch are stored in the proxy, and the signer returned
  is built from the new credentials.\<close>

theorem getSigner_refresh:
  "(Credentials p \<noteq> None \<and>
    Seconds env (time_Sub (clock env (clock_reads wd)) (CredentialsLastUpped p)) \<le> Refresh p \<longrightarrow>
      getSigner env p wd =
        (Ok (NewSigner (Credentials p)), p, wd\<lparr>clock_reads := Suc (clock_reads wd)\<rparr>) \<and>
      sessions (snd (snd (getSigner env p wd))) = sessions wd) \<and>
   (Credentials p = None \<or>
    Refresh p < Seconds env (time_Sub (clock env (clock_reads wd)) (CredentialsLastUpped p)) \<longrightarrow>
      (\<exists>res p' wd'. getSigner env p wd = (res, p', wd') \<and>
         sessions wd' = Suc (sessions wd) \<and>
         (case NewSession env (sessions wd) of
            Inl err \<Rightarrow> res = Panic err \<and> p' = p
          | Inr c \<Rightarrow>
              res = Ok (NewSigner c) \<and>
              p' = p\<lparr>Credentials := c,
                     CredentialsLastUpped := clock env (Suc (clock_reads wd))\<rparr>)))"
  by (auto simp: getSigner_def getCredentials_def time_Now_def Let_def split: sum.splits)

theorem getSigner_refresh_witness:
  "getSigner example_env cached_proxy world0 =
     (Ok (NewSigner (Some (Credentials_object ''AKIAOLD''))), cached_proxy, world0\<lparr>clock_reads := 1\<rparr>) \<and>
   sessions (snd (snd (getSigner example_env cached_proxy world0))) = 0 \<and>
   (\<exists>wd'. getSigner example_env stale_proxy world0 =
      (Ok (NewSigner (Some (Credentials_object ''AKIAEXAMPLE''))),
       stale_proxy\<lparr>Credentials := Some (Credentials_object ''AKIAEXAMPLE''),
                    CredentialsLastUpped := 1700000000001000000\<rparr>, wd') \<and> sessions wd' = 1) \<and>
   (\<exists>wd'. getSigner example_env example_proxy world0 =
      (Ok (NewSigner (Some (Credentials_object ''AKIAEXAMPLE''))),
       example_proxy\<lparr>Credentials := Some (Credentials_object ''AKIAEXAMPLE''),
                      CredentialsLastUpped := 1700000000001000000\<rparr>, wd') \<and> sessions wd' = 1)"
  using getSigner_refresh [of cached_proxy example_env world0]
        getSigner_refresh [of stale_proxy example_env world0]
        getSigner_refresh [of example_proxy example_env world0]
  by (simp add: cached_proxy_def stale_proxy_def example_proxy_def example_env_def world0_def
                time_Sub_def zero_Time_def)


subsection \<open>Relaying the response\<close>

lemma map_of_Header_Add:
  "map_of (Header_Add env h key v) =
     (map_of h)(CanonicalHeaderKey env key \<mapsto>
        (case map_of h (CanonicalHeaderKey env key) of None \<Rightarrow> [] | Some vs \<Rightarrow> vs) @ [v])"
  by (auto simp: Header_Add_def Let_def update_conv' map_add_def fun_eq_iff split: option.splits)

lemma map_of_fold_Header_Add:
  "map_of (fold (\<lambda>v d. Header_Add env d key v) vals h) =
     (if vals = [] then map_of h
      else (map_of h)(CanonicalHeaderKey env key \<mapsto>
             (case map_of h (CanonicalHeaderKey env key) of None \<Rightarrow> [] | Some vs \<Rightarrow> vs) @ vals))"
proof (induction vals arbitrary: h)
  case Nil
  show ?case by simp
next
  case (Cons v vals)
  show ?case
    by (cases "vals = []") (simp_all add: Cons.IH map_of_Header_Add)
qed

lemma map_of_copyHeaders:
  assumes "distinct (map fst src)"
      and "\<forall>k \<in> fst ` set src. CanonicalHeaderKey env k = k"
  shows "map_of (copyHeaders env dst src) k =
           (case map_of src k of
              None \<Rightarrow> map_of dst k
            | Some vs \<Rightarrow>
                if vs = [] then map_of dst k
                else Some ((case map_of dst k of None \<Rightarrow> [] | Some old \<Rightarrow> old) @ vs))"
  using assms
proof (induction src arbitrary: dst)
  case Nil
  show ?case by (simp add: copyHeaders_def)
next
  case (Cons e src)
  obtain k0 vs0 where e: "e = (k0, vs0)" by (cases e)
  let ?d = "fold (\<lambda>v d. Header_Add env d k0 v) vs0 dst"
  have step: "copyHeaders env dst ((k0, vs0) # src) = copyHeaders env ?d src"
    by (simp add: copyHeaders_def)
  have canon: "CanonicalHeaderKey env k0 = k0"
    using Cons.prems(2) by (simp add: e)
  have fresh: "map_of src k0 = None"
    using Cons.prems(1) by (simp add: e map_of_eq_None_iff)
  have IH: "map_of (copyHeaders env ?d src) k =
           (case map_of src k of
              None \<Rightarrow> map_of ?d k
            | Some vs \<Rightarrow>
                if vs = [] then map_of ?d k
                else Some ((case map_of ?d k of None \<Rightarrow> [] | Some old \<Rightarrow> old) @ vs))"
    using Cons.prems by (intro Cons.IH) simp_all
  show ?case
  proof (cases "k = k0")
    case True
    have "map_of (copyHeaders env ?d src) k0 = map_of ?d k0"
      using IH fresh True by simp
    then show ?thesis
      unfolding e step True
      by (simp add: fresh map_of_fold_Header_Add canon)
  next
    case False
    then have "map_of ?d k = map_of dst k"
      by (simp add: map_of_fold_Header_Add canon)
    with False show ?thesis
      unfolding e step by (simp add: IH split: option.splits)
  qed
qed

text \<open>C6, as amended. When the upstream answers with a status code from 100 to 999 and
  its body is read to the end, the handler returns normally and the caller's response
  carries the upstream's status code, the upstream's body bytes, and under every header
  key exactly the upstream's list of values for that key, in order. (The response header
  keys are those of a Go map, one entry per key, in the canonical form in which the HTTP
  client delivers them.)\<close>

theorem upstream_response_relayed:
  assumes run: "ServeHTTP env p new_ResponseWriter r wd = (res, p', w', wd')"
      and reached: "sent wd' = sent wd @ [q]"
      and answered: "client_Do env q = Inr resp"
      and copied: "failure (resp_Body resp) = None"
      and valid: "100 \<le> StatusCode resp" "StatusCode resp \<le> 999"
      and keys: "distinct (map fst (resp_Header resp))"
      and canonical: "\<forall>k \<in> fst ` set (resp_Header resp). CanonicalHeaderKey env k = k"
  shows "res = Ok () \<and>
         w_status w' = Some (StatusCode resp) \<and>
         w_body w' = delivered (resp_Body resp) \<and>
         (\<forall>k. map_of (w_Header w') k =
                (case map_of (resp_Header resp) k of
                   Some (v # vs) \<Rightarrow> Some (v # vs)
                 | _ \<Rightarrow> None))"
proof -
  let ?w1 = "new_ResponseWriter\<lparr>w_Header :=
               copyHeaders env (w_Header new_ResponseWriter) (resp_Header resp)\<rparr>"
  have wh: "WriteHeader ?w1 (StatusCode resp) = Ok (?w1\<lparr>w_status := Some (StatusCode resp)\<rparr>)"
    using valid by (simp add: WriteHeader_def new_ResponseWriter_def)
  from ServeHTTP_sent [OF run reached] answered copied wh
  have res: "res = Ok ()"
    and w': "Write (?w1\<lparr>w_status := Some (StatusCode resp)\<rparr>) (delivered (resp_Body resp)) = Ok w'"
    by auto
  from w' have w'_eq: "w' = ?w1\<lparr>w_status := Some (StatusCode resp),
                                   w_body := delivered (resp_Body resp)\<rparr>"
    by (simp add: Write_Ok new_ResponseWriter_def)
  have hdr: "w_Header w' = copyHeaders env [] (resp_Header resp)"
    by (simp add: w'_eq new_ResponseWriter_def)
  have "map_of (w_Header w') k =
          (case map_of (resp_Header resp) k of Some (v # vs) \<Rightarrow> Some (v # vs) | _ \<Rightarrow> None)" for k
    unfolding hdr map_of_copyHeaders [OF keys canonical]
    by (simp split: option.splits list.splits)
  then show ?thesis
    by (simp add: res w'_eq)
qed

theorem upstream_response_relayed_witness:
  "fst (ServeHTTP example_env example_proxy new_ResponseWriter example_request world0) = Ok () \<and>
   w_status (fst (snd (snd (ServeHTTP example_env example_proxy new_ResponseWriter example_request world0)))) = Some 200 \<and>
   w_body (fst (snd (snd (ServeHTTP example_env example_proxy new_ResponseWriter example_request world0)))) = ''{hits:[]}'' \<and>
   map_of (w_Header (fst (snd (snd (ServeHTTP example_env example_proxy new_ResponseWriter example_request world0)))))
      ''Set-Cookie'' = Some [''a=1'', ''b=2'']"
proof -
  let ?resp = "\<lparr>StatusCode = 200,
                 resp_Header = [(''Content-Type'', [''application/json'']),
                                (''Set-Cookie'', [''a=1'', ''b=2''])],
                 resp_Body = Reader ''{hits:[]}'' None\<rparr>"
  obtain res p' w' wd' where
    run: "ServeHTTP example_env example_proxy new_ResponseWriter example_request world0 = (res, p', w', wd')"
    using prod_cases4 by blast
  have "\<exists>q. sent wd' = sent world0 @ [q]"
    using run by (auto simp: example_defs)
  then obtain q where reached: "sent wd' = sent world0 @ [q]" ..
  have answered: "client_Do example_env q = Inr ?resp"
    by (simp add: example_env_def)
  have canonical: "\<forall>k \<in> fst ` set (resp_Header ?resp). CanonicalHeaderKey example_env k = k"
    by (simp add: example_env_def)
  from upstream_response_relayed [OF run reached answered _ _ _ _ canonical] show ?thesis
    by (simp add: run)
qed

text \<open>An upstream whose status line carries the code 099 is a successful response for
  the HTTP client, with status code 99, headers and a body that reads cleanly. The
  handler sends the request, then panics in \<^verbatim>\<open>WriteHeader\<close>: the caller gets neither
  the status code nor the body.\<close>

theorem invalid_status_code_not_relayed:
  "map (client_Do env_status_99)
     (sent (snd (snd (snd (ServeHTTP env_status_99 example_proxy new_ResponseWriter
                             example_request world0))))) =
     [Inr \<lparr>StatusCode = 99, resp_Header = [(''Content-Type'', [''text/plain''])],
           resp_Body = Reader ''odd'' None\<rparr>] \<and>
   fst (ServeHTTP env_status_99 example_proxy new_ResponseWriter example_request world0) =
     Panic ''invalid WriteHeader code'' \<and>
   w_status (fst (snd (snd (ServeHTTP env_status_99 example_proxy new_ResponseWriter
                              example_request world0)))) = None \<and>
   w_body (fst (snd (snd (ServeHTTP env_status_99 example_proxy new_ResponseWriter
                            example_request world0)))) = []"
  by (simp add: example_defs env_status_99_def)

text \<open>C8. When the upstream answers but reading its body fails, the handler ends the whole
  process with that error (\<^verbatim>\<open>log.Fatal\<close>); no status and no body have been written
  to the caller.\<close>

theorem response_copy_error_is_fatal:
  assumes run: "ServeHTTP env p new_ResponseWriter r wd = (res, p', w', wd')"
      and reached: "sent wd' = sent wd @ [q]"
      and answered: "client_Do env q = Inr resp"
      and broken: "failure (resp_Body resp) = Some err"
  shows "res = Fatal err \<and> w_status w' = None \<and> w_body w' = []"
  using ServeHTTP_sent [OF run reached] answered broken
  by (auto simp: new_ResponseWriter_def)

theorem response_copy_error_is_fatal_witness:
  "fst (ServeHTTP env_truncated example_proxy new_ResponseWriter example_request world0) =
     Fatal ''unexpected EOF'' \<and>
   w_status (fst (snd (snd (ServeHTTP env_truncated example_proxy new_ResponseWriter example_request world0)))) = None"
proof -
  obtain res p' w' wd' where
    run: "ServeHTTP env_truncated example_proxy new_ResponseWriter example_request world0 = (res, p', w', wd')"
    using prod_cases4 by blast
  have "\<exists>q. sent wd' = sent world0 @ [q]"
    using run by (auto simp: example_defs)
  then obtain q where reached: "sent wd' = sent world0 @ [q]" ..
  have answered: "client_Do env_truncated q =
      Inr \<lparr>StatusCode = 200, resp_Header = [], resp_Body = Reader ''{hits:'' (Some ''unexpected EOF'')\<rparr>"
    by (simp add: env_truncated_def)
  from response_copy_error_is_fatal [OF run reached answered] show ?thesis
    by (simp add: run)
qed

subsection \<open>The outbound request\<close>



text \<open>C2, as amended. Take a run that hands a request \<open>q\<close> to the HTTP client. Let
  \<^verbatim>\<open>http.NewRequest\<close> return the method and URL it was given, with no headers, and let
  the signer leave alone the method, the scheme, host and path of the URL, and the
  \<^verbatim>\<open>Kbn-Version\<close> header. Then \<open>q\<close>, the request sent upstream, is what the signer made
  of a request \<open>q0\<close> with the inbound query and with no header but \<^verbatim>\<open>Kbn-Version\<close>, which
  it has, with the first inbound value, exactly when the inbound request has it. So \<open>q\<close>
  has the inbound method and path and the proxy's scheme and host; its query is the
  inbound query as the signer rewrites it; its \<^verbatim>\<open>Kbn-Version\<close> is that of \<open>q0\<close>; and every
  other header it has was put there by the signer. No other inbound header is passed
  on.\<close>

theorem outbound_request_shape:
  assumes run: "ServeHTTP env p w r wd = (res, p', w', wd')"
      and reached: "sent wd' = sent wd @ [q]"
      and newreq: "\<And>q0. http_NewRequest env (Method r)
                      (URL_String env ((URL r)\<lparr>URL_Host := Host p, URL_Scheme := Scheme p\<rparr>))
                      (snd (DumpRequest env r)) = Inr q0 \<Longrightarrow>
                    Method q0 = Method r \<and>
                    URL q0 = (URL r)\<lparr>URL_Host := Host p, URL_Scheme := Scheme p\<rparr> \<and>
                    Header q0 = []"
      and sign: "\<And>s q0 pl sv rg t.
                    Method (Sign env s q0 pl sv rg t) = Method q0 \<and>
                    URL_Scheme (URL (Sign env s q0 pl sv rg t)) = URL_Scheme (URL q0) \<and>
                    URL_Host (URL (Sign env s q0 pl sv rg t)) = URL_Host (URL q0) \<and>
                    Path (URL (Sign env s q0 pl sv rg t)) = Path (URL q0) \<and>
                    map_of (Header (Sign env s q0 pl sv rg t)) (CanonicalHeaderKey env ''Kbn-Version'') =
                      map_of (Header q0) (CanonicalHeaderKey env ''Kbn-Version'')"
  shows "\<exists>q0 payload s t.
           signed wd' = signed wd @ [(q0, payload)] \<and>
           q = Sign env s q0 payload (Service p) (Region p) t \<and>
           RawQuery (URL q0) = RawQuery (URL r) \<and>
           Header q0 =
             (case map_of (Header r) ''Kbn-Version'' of
                Some (v # vs) \<Rightarrow> [(CanonicalHeaderKey env ''Kbn-Version'', [v])]
              | _ \<Rightarrow> []) \<and>
           Method q = Method r \<and>
           Path (URL q) = Path (URL r) \<and>
           URL_Scheme (URL q) = Scheme p \<and> URL_Host (URL q) = Host p \<and>
           map_of (Header q) (CanonicalHeaderKey env ''Kbn-Version'') =
             (case map_of (Header r) ''Kbn-Version'' of
                Some (v # vs) \<Rightarrow> Some [v]
              | _ \<Rightarrow> None)"
proof -
  from ServeHTTP_outbound [OF run reached]
  obtain dump body' req0 req2 payload s t where
    d: "DumpRequest env r = (dump, body')"
    and nr: "http_NewRequest env (Method r)
              (URL_String env ((URL r)\<lparr>URL_Host := Host p, URL_Scheme := Scheme p\<rparr>)) body' = Inr req0"
    and m: "Method req2 = Method req0" and u: "URL req2 = URL req0"
    and h: "Header req2 =
             (case map_of (Header r) ''Kbn-Version'' of
                Some (v # vs) \<Rightarrow> Header_Set env (Header req0) ''Kbn-Version'' v
              | _ \<Rightarrow> Header req0)"
    and q: "q = Sign env s req2 payload (Service p) (Region p) t"
    and sg: "signed wd' = signed wd @ [(req2, payload)]"
    by blast
  have "Method req0 = Method r \<and>
        URL req0 = (URL r)\<lparr>URL_Host := Host p, URL_Scheme := Scheme p\<rparr> \<and> Header req0 = []"
    using newreq nr d by simp
  then have q0: "Method req2 = Method r" "Path (URL req2) = Path (URL r)"
    "RawQuery (URL req2) = RawQuery (URL r)" "URL_Scheme (URL req2) = Scheme p"
    "URL_Host (URL req2) = Host p"
    "Header req2 =
       (case map_of (Header r) ''Kbn-Version'' of
          Some (v # vs) \<Rightarrow> [(CanonicalHeaderKey env ''Kbn-Version'', [v])]
        | _ \<Rightarrow> [])"
    using m u h by (simp_all add: Header_Set_def split: option.splits list.splits)
  have kbn: "map_of (Header req2) (CanonicalHeaderKey env ''Kbn-Version'') =
               (case map_of (Header r) ''Kbn-Version'' of
                  Some (v # vs) \<Rightarrow> Some [v]
                | _ \<Rightarrow> None)"
    by (simp add: q0(6) split: option.splits list.splits)
  have sent_q: "Method q = Method r" "Path (URL q) = Path (URL r)"
    "URL_Scheme (URL q) = Scheme p" "URL_Host (URL q) = Host p"
    "map_of (Header q) (CanonicalHeaderKey env ''Kbn-Version'') =
       (case map_of (Header r) ''Kbn-Version'' of
          Some (v # vs) \<Rightarrow> Some [v]
        | _ \<Rightarrow> None)"
    using sign [of s req2 payload "Service p" "Region p" t] q0 kbn
    unfolding q by simp_all
  from q sg q0(3) q0(6) sent_q show ?thesis by blast
qed

theorem outbound_request_shape_witness:
  "\<exists>q0 q payload.
      signed (snd (snd (snd (ServeHTTP env_sdk_signer example_proxy new_ResponseWriter example_request world0))))
        = [(q0, payload)] \<and>
      sent (snd (snd (snd (ServeHTTP env_sdk_signer example_proxy new_ResponseWriter example_request world0))))
        = [q] \<and>
      RawQuery (URL q0) = ''pretty'' \<and> Header q0 = [(''Kbn-Version'', [''5.1.1''])] \<and>
      Method q = ''POST'' \<and> Path (URL q) = ''/idx/_search'' \<and>
      URL_Scheme (URL q) = ''https'' \<and> URL_Host (URL q) = ''foo.eu-west-1.es.amazonaws.com'' \<and>
      map_of (Header q) ''Kbn-Version'' = Some [''5.1.1'']"
proof -
  obtain res p' w' wd' where
    run: "ServeHTTP env_sdk_signer example_proxy new_ResponseWriter example_request world0 = (res, p', w', wd')"
    using prod_cases4 by blast
  have "\<exists>q. sent wd' = sent world0 @ [q]"
    using run by (auto simp: example_defs env_sdk_signer_def)
  then obtain q where reached: "sent wd' = sent world0 @ [q]" ..
  have newreq: "Method q0 = Method example_request \<and>
      URL q0 = (URL example_request)\<lparr>URL_Host := Host example_proxy, URL_Scheme := Scheme example_proxy\<rparr> \<and>
      Header q0 = []"
    if "http_NewRequest env_sdk_signer (Method example_request)
          (URL_String env_sdk_signer ((URL example_request)\<lparr>URL_Host := Host example_proxy,
                                                             URL_Scheme := Scheme example_proxy\<rparr>))
          (snd (DumpRequest env_sdk_signer example_request)) = Inr q0" for q0
    using that
    by (auto simp: env_sdk_signer_def example_env_def example_request_def example_proxy_def
                   example_url_Parse_def example_URL_String_def Split_def)
  have sign: "Method (Sign env_sdk_signer s q0 pl sv rg t) = Method q0 \<and>
      URL_Scheme (URL (Sign env_sdk_signer s q0 pl sv rg t)) = URL_Scheme (URL q0) \<and>
      URL_Host (URL (Sign env_sdk_signer s q0 pl sv rg t)) = URL_Host (URL q0) \<and>
      Path (URL (Sign env_sdk_signer s q0 pl sv rg t)) = Path (URL q0) \<and>
      map_of (Header (Sign env_sdk_signer s q0 pl sv rg t)) (CanonicalHeaderKey env_sdk_signer ''Kbn-Version'') =
        map_of (Header q0) (CanonicalHeaderKey env_sdk_signer ''Kbn-Version'')"
    for s q0 pl sv rg t
    by (simp add: env_sdk_signer_def example_env_def map_add_def split: option.splits)
  have "\<exists>q0 payload s t.
           signed wd' = signed world0 @ [(q0, payload)] \<and>
           q = Sign env_sdk_signer s q0 payload (Service example_proxy) (Region example_proxy) t \<and>
           RawQuery (URL q0) = RawQuery (URL example_request) \<and>
           Header q0 =
             (case map_of (Header example_request) ''Kbn-Version'' of
                Some (v # vs) \<Rightarrow> [(CanonicalHeaderKey env_sdk_signer ''Kbn-Version'', [v])]
              | _ \<Rightarrow> []) \<and>
           Method q = Method example_request \<and>
           Path (URL q) = Path (URL example_request) \<and>
           URL_Scheme (URL q) = Scheme example_proxy \<and> URL_Host (URL q) = Host example_proxy \<and>
           map_of (Header q) (CanonicalHeaderKey env_sdk_signer ''Kbn-Version'') =
             (case map_of (Header example_request) ''Kbn-Version'' of
                Some (v # vs) \<Rightarrow> Some [v]
              | _ \<Rightarrow> None)"
    by (rule outbound_request_shape [OF run reached newreq sign])
  moreover have "signed world0 = []" "sent world0 = []"
    by (simp_all add: world0_def)
  moreover have "Scheme example_proxy = ''https''" "Host example_proxy = ''foo.eu-west-1.es.amazonaws.com''"
    by (simp_all add: example_proxy_def)
  moreover have "Method example_request = ''POST''" "Path (URL example_request) = ''/idx/_search''"
    "RawQuery (URL example_request) = ''pretty''"
    "map_of (Header example_request) ''Kbn-Version'' = Some [''5.1.1'']"
    by (simp_all add: example_request_def)
  moreover have "CanonicalHeaderKey env_sdk_signer ''Kbn-Version'' = ''Kbn-Version''"
    by (simp add: env_sdk_signer_def example_env_def)
  ultimately show ?thesis
    unfolding run using reached by auto
qed

text \<open>The sample request carries \<^verbatim>\<open>Content-Type\<close> and \<^verbatim>\<open>Kbn-Version\<close> and asks for
  \<^verbatim>\<open>/idx/_search?pretty\<close>. With a signer that adds \<^verbatim>\<open>X-Amz-Date\<close> and
  \<^verbatim>\<open>Authorization\<close> and rewrites the query as the SDK's does, the request sent upstream
  has the keys \<^verbatim>\<open>Kbn-Version\<close>, \<^verbatim>\<open>X-Amz-Date\<close> and \<^verbatim>\<open>Authorization\<close>, so
  \<^verbatim>\<open>Content-Type\<close> is gone, and its query is \<^verbatim>\<open>pretty=\<close>.\<close>

theorem headers_dropped_and_query_rewritten:
  "map (map fst \<circ> Header)
     (sent (snd (snd (snd (ServeHTTP env_sdk_signer example_proxy new_ResponseWriter example_request world0)))))
     = [[''Kbn-Version'', ''X-Amz-Date'', ''Authorization'']] \<and>
   map fst (Header example_request) = [''Content-Type'', ''Kbn-Version''] \<and>
   map (RawQuery \<circ> URL)
     (sent (snd (snd (snd (ServeHTTP env_sdk_signer example_proxy new_ResponseWriter example_request world0)))))
     = [''pretty=''] \<and>
   RawQuery (URL example_request) = ''pretty''"
  by (simp add: example_defs env_sdk_signer_def example_Encode_def)

subsection \<open>Body buffering\<close>




subsection \<open>The logged query\<close>

lemma Replace_newline_map:
  "Replace s newline '' '' = map (\<lambda>c. if c = newline then CHR '' '' else c) s"
  by (induction s) (simp_all add: Replace_def)

lemma no_newline_after_Replace: "newline \<notin> set (Replace s newline '' '')"
  unfolding Replace_newline_map by (auto simp: newline_def)

lemma regEx_FindString_empty_iff:
  "regEx_FindString s = [] \<longleftrightarrow> \<not> (sublist ''_msearch'' s \<or> sublist ''_bulk'' s)"
  by (induction s) (simp_all add: sublist_Cons_right)

lemma sublist_map_fixed:
  assumes fix_m: "\<And>c. f c \<in> set m \<Longrightarrow> f c = c"
      and m_fixed: "\<And>c. c \<in> set m \<Longrightarrow> f c = c"
  shows "sublist m (map f s) \<longleftrightarrow> sublist m s"
proof
  assume "sublist m (map f s)"
  then obtain ps ss where "map f s = ps @ m @ ss"
    by (auto simp: sublist_def)
  then have "\<exists>us vs. s = us @ vs \<and> ps = map f us \<and> m @ ss = map f vs"
    by (simp only: map_eq_append_conv)
  then obtain ps' vs where s1: "s = ps' @ vs" and vs: "map f vs = m @ ss"
    by auto
  from vs have "\<exists>us' vs'. vs = us' @ vs' \<and> m = map f us' \<and> ss = map f vs'"
    by (simp only: map_eq_append_conv)
  then obtain m' ss' where s2: "vs = m' @ ss'" and m': "map f m' = m"
    by auto
  from s1 s2 have s: "s = ps' @ m' @ ss'" by simp
  have "map f m' = m'"
  proof (rule map_idI)
    fix c assume "c \<in> set m'"
    then have "f c \<in> set m" using m' by auto
    then show "f c = c" by (rule fix_m)
  qed
  with m' have "m' = m" by simp
  with s show "sublist m s" by (auto simp: sublist_def)
next
  assume "sublist m s"
  then obtain ps ss where "s = ps @ m @ ss"
    by (auto simp: sublist_def)
  then have "map f s = map f ps @ map f m @ map f ss" by simp
  moreover have "map f m = m"
    by (rule map_idI) (rule m_fixed)
  ultimately show "sublist m (map f s)"
    by (auto simp: sublist_def)
qed

lemma marker_in_flattened_dump:
  "sublist ''_msearch'' (Replace dump newline '' '') \<longleftrightarrow> sublist ''_msearch'' dump"
  "sublist ''_bulk'' (Replace dump newline '' '') \<longleftrightarrow> sublist ''_bulk'' dump"
  unfolding Replace_newline_map
  by (rule sublist_map_fixed; auto simp: newline_def split: if_splits)+

lemma regex_FindString_no_close:
  "CHR ''}'' \<notin> set s \<Longrightarrow> regex_FindString s = []"
proof (induction s)
  case Nil
  show ?case by simp
next
  case (Cons c cs)
  then have "CHR ''}'' \<notin> set (takeWhile (\<lambda>c. c \<noteq> newline) cs)"
    by (auto dest: set_takeWhileD)
  with Cons show ?case
    by (simp add: dot_star_close_def)
qed

lemma regex_FindString_one_line:
  "newline \<notin> set s \<Longrightarrow> regex_FindString s = first_brace_span s"
proof (induction s)
  case Nil
  show ?case by (simp add: first_brace_span_def)
next
  case (Cons c cs)
  then have IH: "regex_FindString cs = first_brace_span cs" and nl: "newline \<notin> set cs"
    by simp_all
  have line: "takeWhile (\<lambda>c. c \<noteq> newline) cs = cs"
    using nl by (simp add: takeWhile_eq_all_conv) metis
  show ?case
  proof (cases "c = CHR ''{''")
    case False
    then show ?thesis
      by (simp add: IH first_brace_span_def)
  next
    case True
    show ?thesis
    proof (cases "CHR ''}'' \<in> set cs")
      case False
      then show ?thesis
        using True by (simp add: dot_star_close_def line regex_FindString_no_close first_brace_span_def)
    next
      case close: True
      then have "\<exists>x \<in> set (rev cs). \<not> x \<noteq> CHR ''}''" by simp
      then have "dropWhile (\<lambda>c. c \<noteq> CHR ''}'') (rev cs @ [c]) =
                 dropWhile (\<lambda>c. c \<noteq> CHR ''}'') (rev cs) @ [c]"
        by (metis (mono_tags, lifting) dropWhile_append1)
      with close True show ?thesis
        by (simp add: dot_star_close_def line first_brace_span_def)
    qed
  qed
qed

text \<open>C7, as amended. The query is empty when the dump contains \<^verbatim>\<open>_msearch\<close> or
  \<^verbatim>\<open>_bulk\<close>; otherwise it is the first brace-delimited span, from the first opening
  brace to the last closing brace, of the dump in which every newline has been replaced
  by a space.\<close>

theorem query_of_dump_flattened:
  "query_of_dump dump =
     (if sublist ''_msearch'' dump \<or> sublist ''_bulk'' dump then []
      else first_brace_span (Replace dump newline '' ''))"
proof -
  have "query_of_dump dump =
          (if regEx_FindString (Replace dump newline '' '') = []
           then regex_FindString (Replace dump newline '' '') else [])"
    by (simp add: query_of_dump_def Let_def)
  then show ?thesis
    by (simp add: regEx_FindString_empty_iff marker_in_flattened_dump
                  regex_FindString_one_line [OF no_newline_after_Replace])
qed

text \<open>On a dump whose body is a JSON object written on three lines the query has spaces
  where the dump has newlines: it differs from the first brace-delimited span of the
  dump, and it is no contiguous part of the dump at all.\<close>

theorem query_is_not_a_span_of_the_dump:
  "query_of_dump multiline_dump = ''{  query: {} }'' \<and>
   spec_query multiline_dump = ''{'' @ [newline] @ '' query: {}'' @ [newline] @ ''}'' \<and>
   query_of_dump multiline_dump \<noteq> spec_query multiline_dump \<and>
   \<not> sublist (query_of_dump multiline_dump) multiline_dump"
  by (simp add: query_of_dump_def spec_query_def multiline_dump_def Replace_def newline_def
                dot_star_close_def first_brace_span_def sublist_code Let_def)

end
